theory Spec2Isabelle
  imports Complex_Main
begin

section \<open>Host values\<close>

text \<open>
  The values the loader (src/src/loader.ts) meets: \<open>undefined\<close>, a string, or a value
  that is neither, a function or an object that a plain object inherits from
  \<open>Object.prototype\<close>. Such a value is named by the text that converting it to a string
  gives. Strings are sequences of 8-bit code units. The own properties of the host's
  environment objects hold strings or \<open>undefined\<close>, as the declared type
  \<open>Record<string, string>\<close> of the cache says.
\<close>

datatype jsval = Undefined | Str string | Builtin string

text \<open>
  A thrown \<open>Error\<close>: its message and its \<open>cause\<close> property, if it has one.
  \<open>new Error(message)\<close> has no \<open>cause\<close>. \<open>new Error(message, options)\<close> installs
  as cause the \<open>cause\<close> property of its second argument, when that argument has one
  (ECMAScript, InstallErrorCause), and none otherwise.
\<close>

datatype jserror = JSError (message: string) (cause: "jserror option")

definition newError :: "string \<Rightarrow> jserror" where
  "newError msg = JSError msg None"

definition newErrorWithOptions :: "string \<Rightarrow> jserror \<Rightarrow> jserror" where
  "newErrorWithOptions msg options = JSError msg (cause options)"

text \<open>The character \<open>"\<close> of the template literals.\<close>

definition dquote :: char where
  "dquote = CHR 0x22"

text \<open>
  An object of the host: its own enumerable properties, in the order of enumeration, each
  with what reading it gives: a value, or an error thrown by an accessor (\<open>Inl\<close>).
  Its prototype is \<open>Object.prototype\<close>, as that of the cache is.
\<close>

type_synonym jsobject = "(string \<times> (jserror + jsval)) list"

section \<open>The host environment\<close>

text \<open>
  The host gives the outcome of each expression that the loader evaluates on the
  globals. An expression that reads a property, such as \<open>process.env\<close>, throws
  (\<open>Inl\<close>: the global is \<open>null\<close>, or the property is an accessor that throws), or
  yields a falsy value (\<open>Inr None\<close>) or an object.
\<close>

record deno_global =
  env_toObject :: "jserror + jsobject"  \<comment> \<open>\<open>Deno.env.toObject()\<close>\<close>
  env_get :: "string \<Rightarrow> jserror + jsval"  \<comment> \<open>\<open>Deno.env.get(key)\<close>\<close>

record window_global =
  window_ENV :: "jserror + jsobject option"  \<comment> \<open>\<open>window.__ENV__\<close>\<close>
  window_env :: "jserror + jsobject option"  \<comment> \<open>\<open>window.env\<close>\<close>
  window_process_env :: "jserror + jsobject option"  \<comment> \<open>\<open>window.process?.env\<close>\<close>
  webpack_require :: "jserror + bool"
    \<comment> \<open>\<open>typeof window.__webpack_require__ !== 'undefined'\<close>\<close>

record host =
  process :: "(jserror + jsobject option) option"
    \<comment> \<open>\<open>None\<close> when \<open>typeof process === 'undefined'\<close>, else what \<open>process.env\<close> gives\<close>
  import_meta :: "(jserror + jsobject option) option"
    \<comment> \<open>\<open>None\<close> when \<open>typeof import.meta === 'undefined'\<close>, else what \<open>import.meta.env\<close> gives\<close>
  global_importMeta :: bool  \<comment> \<open>\<open>typeof globalThis.importMeta !== 'undefined'\<close>\<close>
  Deno :: "deno_global option"  \<comment> \<open>\<open>None\<close> when \<open>typeof globalThis.Deno === 'undefined'\<close>\<close>
  Bun :: bool  \<comment> \<open>\<open>typeof globalThis.Bun !== 'undefined'\<close>\<close>
  window :: "window_global option"  \<comment> \<open>\<open>None\<close> when \<open>typeof window === 'undefined'\<close>\<close>
  global_ENV :: "jserror + jsobject option"
    \<comment> \<open>\<open>globalThis.__ENV__\<close>, \<open>Inr None\<close> when undefined or null\<close>
  objectPrototype :: "string \<rightharpoonup> jsval"
    \<comment> \<open>the data properties of \<open>Object.prototype\<close>, writable as the standard ones are\<close>
  proto_accessor :: bool
    \<comment> \<open>whether \<open>Object.prototype\<close> has the accessor \<open>__proto__\<close> (Deno removes it)\<close>

text \<open>
  What a plain object inherits under a key. The getter of \<open>__proto__\<close> returns the
  prototype, \<open>Object.prototype\<close> itself.
\<close>

definition protoGet :: "host \<Rightarrow> string \<Rightarrow> jsval option" where
  "protoGet h key =
     (if key = ''__proto__'' \<and> proto_accessor h then Some (Builtin ''[object Object]'')
      else objectPrototype h key)"

text \<open>\<open>key in obj\<close> and \<open>obj[key]\<close> on an object of the host.\<close>

definition hasProperty :: "host \<Rightarrow> jsobject \<Rightarrow> string \<Rightarrow> bool" where
  "hasProperty h obj key =
     (case map_of obj key of Some r \<Rightarrow> True
      | None \<Rightarrow> (case protoGet h key of Some v \<Rightarrow> True | None \<Rightarrow> False))"

definition getProperty :: "host \<Rightarrow> jsobject \<Rightarrow> string \<Rightarrow> jserror + jsval" where
  "getProperty h obj key =
     (case map_of obj key of Some r \<Rightarrow> r
      | None \<Rightarrow> (case protoGet h key of Some v \<Rightarrow> Inr v | None \<Rightarrow> Inr Undefined))"

section \<open>The loader\<close>

record ConfigOptions =
  prefix :: "string option"

record RuntimeDetection =
  isNode :: bool
  isBrowser :: bool
  isVite :: bool
  isWebpack :: bool
  isDeno :: bool
  isBun :: bool

text \<open>
  \<open>#envCache\<close> is a plain object created by \<open>{}\<close>: its own properties, all data
  properties, and the prototype \<open>Object.prototype\<close>.
\<close>

record ConfigLoader =
  runtimeDetection :: RuntimeDetection
  envCache :: "string \<rightharpoonup> jsval"

text \<open>\<open>key in this.#envCache\<close> and \<open>this.#envCache[key]\<close>.\<close>

definition cacheHas :: "host \<Rightarrow> ConfigLoader \<Rightarrow> string \<Rightarrow> bool" where
  "cacheHas h L key =
     (case envCache L key of Some v \<Rightarrow> True
      | None \<Rightarrow> (case protoGet h key of Some v \<Rightarrow> True | None \<Rightarrow> False))"

definition cacheGet :: "host \<Rightarrow> ConfigLoader \<Rightarrow> string \<Rightarrow> jsval" where
  "cacheGet h L key =
     (case envCache L key of Some v \<Rightarrow> v
      | None \<Rightarrow> (case protoGet h key of Some v \<Rightarrow> v | None \<Rightarrow> Undefined))"

text \<open>
  \<open>this.#envCache[key] = value\<close>. Where the cache has no own property \<open>__proto__\<close>
  the assignment runs the inherited setter; the values assigned are strings or
  \<open>undefined\<close>, which the setter ignores, and nothing is stored. Any other assignment
  creates or updates an own property.
\<close>

definition cacheSet :: "host \<Rightarrow> ConfigLoader \<Rightarrow> string \<Rightarrow> jsval \<Rightarrow> ConfigLoader" where
  "cacheSet h L key value =
     (if envCache L key = None \<and> key = ''__proto__'' \<and> proto_accessor h then L
      else L\<lparr>envCache := (envCache L)(key \<mapsto> value)\<rparr>)"

text \<open>
  \<open>#detectRuntime\<close>. With a \<open>window\<close>, reading \<open>window.__webpack_require__\<close> may
  throw.
\<close>

definition detectRuntime :: "host \<Rightarrow> jserror + RuntimeDetection" where
  "detectRuntime h =
     (let hasProcess = (process h \<noteq> None);
          hasWindow = (window h \<noteq> None);
          hasImportMeta =
            (global_importMeta h \<or> (case import_meta h of None \<Rightarrow> False | Some m \<Rightarrow> True));
          hasDeno = (Deno h \<noteq> None);
          hasBun = Bun h
      in case (case window h of None \<Rightarrow> Inr False | Some w \<Rightarrow> webpack_require w) of
           Inl e \<Rightarrow> Inl e
         | Inr webpack \<Rightarrow>
             Inr \<lparr> isNode = hasProcess \<and> \<not> hasWindow \<and> \<not> hasDeno \<and> \<not> hasBun,
                   isBrowser = hasWindow,
                   isVite = hasImportMeta \<and> hasWindow,
                   isWebpack = hasWindow \<and> webpack,
                   isDeno = hasDeno,
                   isBun = hasBun \<rparr>)"

text \<open>
  \<open>Object.assign(this.#envCache, source)\<close>: for each own enumerable key of the source,
  in order, read the property and assign it to the cache. A read that throws ends the
  copy; what was assigned before stays.
\<close>

definition ownKeys :: "jsobject \<Rightarrow> string list" where
  "ownKeys obj = remdups (map fst obj)"

fun assignKeys ::
  "host \<Rightarrow> ConfigLoader \<Rightarrow> jsobject \<Rightarrow> string list \<Rightarrow> (jserror + unit) \<times> ConfigLoader" where
  "assignKeys h L source [] = (Inr (), L)"
| "assignKeys h L source (key # keys) =
     (case getProperty h source key of
        Inl e \<Rightarrow> (Inl e, L)
      | Inr value \<Rightarrow> assignKeys h (cacheSet h L key value) source keys)"

definition assign :: "host \<Rightarrow> ConfigLoader \<Rightarrow> jsobject \<Rightarrow> (jserror + unit) \<times> ConfigLoader" where
  "assign h L source = assignKeys h L source (ownKeys source)"

text \<open>
  The five blocks of \<open>#loadEnvironmentVariables\<close>, in the order of the source. Only
  the Deno block is inside \<open>try\<close>; its \<open>catch\<close> does nothing. An error thrown in
  another block leaves the method.
\<close>

definition loadProcessEnv :: "host \<Rightarrow> ConfigLoader \<Rightarrow> (jserror + unit) \<times> ConfigLoader" where
  "loadProcessEnv h L =
     (case process h of None \<Rightarrow> (Inr (), L)
      | Some (Inl e) \<Rightarrow> (Inl e, L)
      | Some (Inr None) \<Rightarrow> (Inr (), L)
      | Some (Inr (Some env)) \<Rightarrow> assign h L env)"

definition loadImportMetaEnv :: "host \<Rightarrow> ConfigLoader \<Rightarrow> (jserror + unit) \<times> ConfigLoader" where
  "loadImportMetaEnv h L =
     (case import_meta h of None \<Rightarrow> (Inr (), L)
      | Some (Inl e) \<Rightarrow> (Inl e, L)
      | Some (Inr None) \<Rightarrow> (Inr (), L)
      | Some (Inr (Some env)) \<Rightarrow> assign h L env)"

definition loadDenoEnv :: "host \<Rightarrow> ConfigLoader \<Rightarrow> (jserror + unit) \<times> ConfigLoader" where
  "loadDenoEnv h L =
     (case Deno h of None \<Rightarrow> (Inr (), L)
      | Some d \<Rightarrow>
          (case env_toObject d of
             Inl e \<Rightarrow> (Inr (), L)
           | Inr denoEnv \<Rightarrow> (Inr (), snd (assign h L denoEnv))))"

text \<open>\<open>window.__ENV__ || window.env || window.process?.env\<close>: the first truthy one.\<close>

definition windowEnv :: "window_global \<Rightarrow> jserror + jsobject option" where
  "windowEnv w =
     (case window_ENV w of Inl e \<Rightarrow> Inl e
      | Inr (Some env) \<Rightarrow> Inr (Some env)
      | Inr None \<Rightarrow>
          (case window_env w of Inl e \<Rightarrow> Inl e
           | Inr (Some env) \<Rightarrow> Inr (Some env)
           | Inr None \<Rightarrow> window_process_env w))"

definition loadWindowEnv :: "host \<Rightarrow> ConfigLoader \<Rightarrow> (jserror + unit) \<times> ConfigLoader" where
  "loadWindowEnv h L =
     (case window h of None \<Rightarrow> (Inr (), L)
      | Some w \<Rightarrow>
          (case windowEnv w of Inl e \<Rightarrow> (Inl e, L)
           | Inr None \<Rightarrow> (Inr (), L)
           | Inr (Some env) \<Rightarrow> assign h L env))"

definition loadGlobalEnv :: "host \<Rightarrow> ConfigLoader \<Rightarrow> (jserror + unit) \<times> ConfigLoader" where
  "loadGlobalEnv h L =
     (case global_ENV h of Inl e \<Rightarrow> (Inl e, L)
      | Inr None \<Rightarrow> (Inr (), L)
      | Inr (Some env) \<Rightarrow> assign h L env)"

text \<open>Sequencing: the next block runs when the one before did not throw.\<close>

definition andThen ::
  "(jserror + unit) \<times> ConfigLoader \<Rightarrow> (ConfigLoader \<Rightarrow> (jserror + unit) \<times> ConfigLoader)
     \<Rightarrow> (jserror + unit) \<times> ConfigLoader" where
  "andThen r next = (case r of (Inl e, L) \<Rightarrow> (Inl e, L) | (Inr u, L) \<Rightarrow> next L)"

definition loadEnvironmentVariables ::
  "host \<Rightarrow> ConfigLoader \<Rightarrow> (jserror + unit) \<times> ConfigLoader" where
  "loadEnvironmentVariables h L =
     andThen (andThen (andThen (andThen (loadProcessEnv h L) (loadImportMetaEnv h))
       (loadDenoEnv h)) (loadWindowEnv h)) (loadGlobalEnv h)"

text \<open>
  The constructor: detect the runtime, then load into the empty cache. When either
  throws there is no loader.
\<close>

definition newConfigLoader :: "host \<Rightarrow> jserror + ConfigLoader" where
  "newConfigLoader h =
     (case detectRuntime h of Inl e \<Rightarrow> Inl e
      | Inr runtime \<Rightarrow>
          (case loadEnvironmentVariables h \<lparr> runtimeDetection = runtime, envCache = Map.empty \<rparr> of
             (Inl e, L) \<Rightarrow> Inl e
           | (Inr u, L) \<Rightarrow> Inr L))"

text \<open>
  \<open>#tryGetValue\<close>: the cache, then \<open>process.env\<close>, \<open>import.meta.env\<close> and
  \<open>Deno.env.get\<close>; a block that does not return falls through to the next one. Only
  the Deno block is inside \<open>try\<close>.
\<close>

definition tryDenoEnv :: "host \<Rightarrow> ConfigLoader \<Rightarrow> string \<Rightarrow> (jserror + jsval) \<times> ConfigLoader" where
  "tryDenoEnv h L key =
     (case Deno h of None \<Rightarrow> (Inr Undefined, L)
      | Some d \<Rightarrow>
          (case env_get d key of
             Inl e \<Rightarrow> (Inr Undefined, L)
           | Inr value \<Rightarrow>
               if value \<noteq> Undefined then (Inr value, cacheSet h L key value)
               else (Inr Undefined, L)))"

definition tryImportMetaEnv ::
  "host \<Rightarrow> ConfigLoader \<Rightarrow> string \<Rightarrow> (jserror + jsval) \<times> ConfigLoader" where
  "tryImportMetaEnv h L key =
     (case import_meta h of None \<Rightarrow> tryDenoEnv h L key
      | Some (Inl e) \<Rightarrow> (Inl e, L)
      | Some (Inr None) \<Rightarrow> tryDenoEnv h L key
      | Some (Inr (Some env)) \<Rightarrow>
          (case getProperty h env key of
             Inl e \<Rightarrow> (Inl e, L)
           | Inr value \<Rightarrow>
               if value \<noteq> Undefined then (Inr value, cacheSet h L key value)
               else tryDenoEnv h L key))"

definition tryProcessEnv ::
  "host \<Rightarrow> ConfigLoader \<Rightarrow> string \<Rightarrow> (jserror + jsval) \<times> ConfigLoader" where
  "tryProcessEnv h L key =
     (case process h of None \<Rightarrow> tryImportMetaEnv h L key
      | Some (Inl e) \<Rightarrow> (Inl e, L)
      | Some (Inr None) \<Rightarrow> tryImportMetaEnv h L key
      | Some (Inr (Some env)) \<Rightarrow>
          if hasProperty h env key then
            (case getProperty h env key of
               Inl e \<Rightarrow> (Inl e, L)
             | Inr value \<Rightarrow>
                 if value \<noteq> Undefined then (Inr value, cacheSet h L key value)
                 else tryImportMetaEnv h L key)
          else tryImportMetaEnv h L key)"

definition tryGetValue :: "host \<Rightarrow> ConfigLoader \<Rightarrow> string \<Rightarrow> (jserror + jsval) \<times> ConfigLoader" where
  "tryGetValue h L key =
     (if cacheHas h L key then (Inr (cacheGet h L key), L)
      else tryProcessEnv h L key)"

text \<open>
  \<open>get\<close>: the loop over the common prefixes stops at the first defined value; an
  error thrown by a lookup leaves \<open>get\<close>.
\<close>

definition commonPrefixes :: "string list" where
  "commonPrefixes = [''VITE_'', ''REACT_APP_'', ''VUE_APP_'', ''NEXT_PUBLIC_'']"

fun tryCommonPrefixes ::
  "host \<Rightarrow> ConfigLoader \<Rightarrow> string \<Rightarrow> string list \<Rightarrow> (jserror + jsval) \<times> ConfigLoader" where
  "tryCommonPrefixes h L key [] = (Inr Undefined, L)"
| "tryCommonPrefixes h L key (commonPrefix # rest) =
     (case tryGetValue h L (commonPrefix @ key) of
        (Inl e, L') \<Rightarrow> (Inl e, L')
      | (Inr value, L') \<Rightarrow>
          if value \<noteq> Undefined then (Inr value, L') else tryCommonPrefixes h L' key rest)"

definition get ::
  "host \<Rightarrow> ConfigLoader \<Rightarrow> string \<Rightarrow> ConfigOptions \<Rightarrow> (jserror + jsval) \<times> ConfigLoader" where
  "get h L key options =
     (let prefix = (case prefix options of None \<Rightarrow> [] | Some p \<Rightarrow> p);
          fullKey = (if prefix \<noteq> [] then prefix @ key else key)
      in case tryGetValue h L fullKey of
           (Inl e, L') \<Rightarrow> (Inl e, L')
         | (Inr value, L') \<Rightarrow>
             if value = Undefined \<and> prefix = [] then tryCommonPrefixes h L' key commonPrefixes
             else (Inr value, L'))"

text \<open>
  \<open>getTransformed\<close>: \<open>Inr None\<close> is the result \<open>undefined\<close>; a transform that throws
  is caught and a new error is thrown, built by \<open>new Error(message, e)\<close>. The call of
  \<open>get\<close> is outside the \<open>try\<close>.
\<close>

definition transformFailedMessage :: "string \<Rightarrow> string" where
  "transformFailedMessage fullKey =
     ''Failed to transform config value for key '' @ [dquote] @ fullKey @ [dquote] @ '':''"

definition getTransformed ::
  "host \<Rightarrow> ConfigLoader \<Rightarrow> string \<Rightarrow> (jsval \<Rightarrow> jserror + 'a) \<Rightarrow> ConfigOptions
     \<Rightarrow> (jserror + 'a option) \<times> ConfigLoader" where
  "getTransformed h L key transform options =
     (case get h L key options of
        (Inl e, L') \<Rightarrow> (Inl e, L')
      | (Inr value, L') \<Rightarrow>
          if value \<noteq> Undefined then
            (case transform value of
               Inr r \<Rightarrow> (Inr (Some r), L')
             | Inl e \<Rightarrow>
                 (let prefix = (case prefix options of None \<Rightarrow> [] | Some p \<Rightarrow> p);
                      fullKey = (if prefix \<noteq> [] then prefix @ key else key)
                  in (Inl (newErrorWithOptions (transformFailedMessage fullKey) e), L')))
          else (Inr None, L'))"

definition requiredMissingMessage :: "string \<Rightarrow> string" where
  "requiredMissingMessage key =
     ''Required config value '' @ [dquote] @ key @ [dquote] @ '' is not defined''"

definition getRequired ::
  "host \<Rightarrow> ConfigLoader \<Rightarrow> string \<Rightarrow> ConfigOptions \<Rightarrow> (jserror + jsval) \<times> ConfigLoader" where
  "getRequired h L key options =
     (case get h L key options of
        (Inl e, L') \<Rightarrow> (Inl e, L')
      | (Inr value, L') \<Rightarrow>
          if value = Undefined then (Inl (newError (requiredMissingMessage key)), L')
          else (Inr value, L'))"



definition set_value :: "host \<Rightarrow> ConfigLoader \<Rightarrow> string \<Rightarrow> string \<Rightarrow> ConfigLoader" where
  "set_value h L key value = cacheSet h L key (Str value)"


section \<open>The numeric coercion\<close>

text \<open>
  \<open>Number(value)\<close> on a string is StringToNumber of ECMAScript: white space is
  stripped at both ends; the empty rest is \<open>+0\<close>; otherwise the rest is parsed as a
  StrNumericLiteral, and the result is \<open>NaN\<close> when it is not one. The result
  \<open>Rounded neg x\<close> is the Number value that the mathematical value \<open>x\<close> rounds to,
  negated when \<open>neg\<close> holds; the rounding itself is not modelled.
\<close>

datatype jsnumber = NaN | PosInfinity | NegInfinity | Rounded bool real

definition isStrWhiteSpaceChar :: "char \<Rightarrow> bool" where
  "isStrWhiteSpaceChar c =
     (c \<in> set [CHR 0x09, CHR 0x0A, CHR 0x0B, CHR 0x0C, CHR 0x0D, CHR 0x20, CHR 0xA0])"

definition trimString :: "string \<Rightarrow> string" where
  "trimString s = rev (dropWhile isStrWhiteSpaceChar (rev (dropWhile isStrWhiteSpaceChar s)))"

definition isDecimalDigit :: "char \<Rightarrow> bool" where
  "isDecimalDigit c = (c \<in> set ''0123456789'')"

definition isBinaryDigit :: "char \<Rightarrow> bool" where
  "isBinaryDigit c = (c \<in> set ''01'')"

definition isOctalDigit :: "char \<Rightarrow> bool" where
  "isOctalDigit c = (c \<in> set ''01234567'')"

definition isHexDigit :: "char \<Rightarrow> bool" where
  "isHexDigit c = (c \<in> set ''0123456789abcdefABCDEF'')"

definition digitValue :: "char \<Rightarrow> nat" where
  "digitValue c =
     (if c \<in> set ''0123456789'' then of_char c - 48
      else if c \<in> set ''abcdef'' then of_char c - 87
      else of_char c - 55)"

definition digitsValue :: "nat \<Rightarrow> string \<Rightarrow> nat" where
  "digitsValue base ds = foldl (\<lambda>n c. base * n + digitValue c) 0 ds"

text \<open>NonDecimalIntegerLiteral: \<open>0b\<close>, \<open>0o\<close> or \<open>0x\<close> (either case) and digits.\<close>

definition nonDecimalIntegerLiteral :: "string \<Rightarrow> nat option" where
  "nonDecimalIntegerLiteral t =
     (case t of
        z # p # ds \<Rightarrow>
          if z = CHR ''0'' \<and> ds \<noteq> [] then
            (if p \<in> set ''bB'' \<and> list_all isBinaryDigit ds then Some (digitsValue 2 ds)
             else if p \<in> set ''oO'' \<and> list_all isOctalDigit ds then Some (digitsValue 8 ds)
             else if p \<in> set ''xX'' \<and> list_all isHexDigit ds then Some (digitsValue 16 ds)
             else None)
          else None
      | _ \<Rightarrow> None)"

text \<open>SignedInteger and ExponentPart; no exponent part is the exponent 0.\<close>

definition decimalDigits :: "string \<Rightarrow> int option" where
  "decimalDigits ds =
     (if ds \<noteq> [] \<and> list_all isDecimalDigit ds then Some (int (digitsValue 10 ds)) else None)"

definition signedInteger :: "string \<Rightarrow> int option" where
  "signedInteger ds =
     (case ds of [] \<Rightarrow> None
      | c # rest \<Rightarrow>
          if c = CHR ''+'' then decimalDigits rest
          else if c = CHR ''-'' then map_option uminus (decimalDigits rest)
          else decimalDigits ds)"

definition exponentPart :: "string \<Rightarrow> int option" where
  "exponentPart r =
     (case r of [] \<Rightarrow> Some 0
      | c # ds \<Rightarrow> if c \<in> set ''eE'' then signedInteger ds else None)"

definition scale10 :: "real \<Rightarrow> int \<Rightarrow> real" where
  "scale10 x e = (if 0 \<le> e then x * 10 ^ nat e else x / 10 ^ nat (- e))"

text \<open>
  The mathematical value of a StrUnsignedDecimalLiteral other than \<open>Infinity\<close>:
  digits with an optional fraction and exponent, or a fraction with at least one digit.
\<close>

definition strUnsignedDecimalLiteral :: "string \<Rightarrow> real option" where
  "strUnsignedDecimalLiteral u =
     (let ip = takeWhile isDecimalDigit u; r = dropWhile isDecimalDigit u
      in case r of
           [] \<Rightarrow> if ip = [] then None else Some (real (digitsValue 10 ip))
         | c # r' \<Rightarrow>
             if c = CHR ''.'' then
               (let fp = takeWhile isDecimalDigit r'; r'' = dropWhile isDecimalDigit r'
                in if ip = [] \<and> fp = [] then None
                   else (case exponentPart r'' of None \<Rightarrow> None
                         | Some e \<Rightarrow>
                             Some (scale10 (real (digitsValue 10 ip)
                                     + real (digitsValue 10 fp) / 10 ^ length fp) e)))
             else if ip = [] then None
             else (case exponentPart r of None \<Rightarrow> None
                   | Some e \<Rightarrow> Some (scale10 (real (digitsValue 10 ip)) e)))"

definition unsignedValue :: "string \<Rightarrow> jsnumber" where
  "unsignedValue u =
     (if u = ''Infinity'' then PosInfinity
      else case strUnsignedDecimalLiteral u of None \<Rightarrow> NaN | Some x \<Rightarrow> Rounded False x)"

fun negate :: "jsnumber \<Rightarrow> jsnumber" where
  "negate NaN = NaN"
| "negate PosInfinity = NegInfinity"
| "negate NegInfinity = PosInfinity"
| "negate (Rounded neg x) = Rounded (\<not> neg) x"

definition strDecimalLiteral :: "string \<Rightarrow> jsnumber" where
  "strDecimalLiteral t =
     (case t of [] \<Rightarrow> NaN
      | c # u \<Rightarrow>
          if c = CHR ''+'' then unsignedValue u
          else if c = CHR ''-'' then negate (unsignedValue u)
          else unsignedValue t)"

definition StringToNumber :: "string \<Rightarrow> jsnumber" where
  "StringToNumber str =
     (let t = trimString str
      in if t = [] then Rounded False 0
         else case nonDecimalIntegerLiteral t of
                Some n \<Rightarrow> Rounded False (real n)
              | None \<Rightarrow> strDecimalLiteral t)"

text \<open>
  \<open>Number(value)\<close>: a value that is not a string is first converted to one, and
  \<open>undefined\<close> gives \<open>NaN\<close>.
\<close>

fun toNumber :: "jsval \<Rightarrow> jsnumber" where
  "toNumber Undefined = NaN"
| "toNumber (Str s) = StringToNumber s"
| "toNumber (Builtin text) = StringToNumber text"

text \<open>The template literal \<open>`${value}`\<close>.\<close>

fun toText :: "jsval \<Rightarrow> string" where
  "toText Undefined = ''undefined''"
| "toText (Str s) = s"
| "toText (Builtin text) = text"

definition notValidNumberMessage :: "jsval \<Rightarrow> string" where
  "notValidNumberMessage value =
     ''Value '' @ [dquote] @ toText value @ [dquote] @ '' is not a valid number''"

definition numberTransform :: "jsval \<Rightarrow> jserror + jsnumber" where
  "numberTransform value =
     (let num = toNumber value
      in if num = NaN then Inl (newError (notValidNumberMessage value)) else Inr num)"

definition getNumber ::
  "host \<Rightarrow> ConfigLoader \<Rightarrow> string \<Rightarrow> ConfigOptions
     \<Rightarrow> (jserror + jsnumber option) \<times> ConfigLoader" where
  "getNumber h L key options = getTransformed h L key numberTransform options"

section \<open>The specification's reading of get\<close>

text \<open>
  The first effective key, in the order of the list, whose direct lookup does not come
  back with \<open>undefined\<close>; the result is that lookup's result.
\<close>

fun firstFound ::
  "host \<Rightarrow> ConfigLoader \<Rightarrow> string list \<Rightarrow> (jserror + jsval) \<times> ConfigLoader" where
  "firstFound h L [] = (Inr Undefined, L)"
| "firstFound h L (k # ks) =
     (if fst (tryGetValue h L k) \<noteq> Inr Undefined then tryGetValue h L k
      else firstFound h L ks)"

section \<open>The specification's reading of the sources\<close>

text \<open>
  The objects that the Source Merger copies (spec.md, section 4.2), \<open>None\<close> for a source
  that is absent or that cannot be read.
\<close>

definition processObject :: "host \<Rightarrow> jsobject option" where
  "processObject h = (case process h of Some (Inr (Some env)) \<Rightarrow> Some env | _ \<Rightarrow> None)"

definition importMetaObject :: "host \<Rightarrow> jsobject option" where
  "importMetaObject h = (case import_meta h of Some (Inr (Some env)) \<Rightarrow> Some env | _ \<Rightarrow> None)"

definition denoObject :: "host \<Rightarrow> jsobject option" where
  "denoObject h =
     (case Deno h of None \<Rightarrow> None
      | Some d \<Rightarrow> (case env_toObject d of Inl e \<Rightarrow> None | Inr env \<Rightarrow> Some env))"

definition browserObject :: "host \<Rightarrow> jsobject option" where
  "browserObject h =
     (case window h of None \<Rightarrow> None
      | Some w \<Rightarrow> (case windowEnv w of Inr (Some env) \<Rightarrow> Some env | _ \<Rightarrow> None))"

definition globalObject :: "host \<Rightarrow> jsobject option" where
  "globalObject h = (case global_ENV h of Inr (Some env) \<Rightarrow> Some env | _ \<Rightarrow> None)"

definition sourceObjects :: "host \<Rightarrow> jsobject option list" where
  "sourceObjects h =
     [processObject h, importMetaObject h, denoObject h, browserObject h, globalObject h]"





section \<open>Example hosts and loaders\<close>

text \<open>The properties of the standard \<open>Object.prototype\<close>, all functions.\<close>

definition nativeFunction :: "string \<Rightarrow> jsval" where
  "nativeFunction name = Builtin (''function '' @ name @ ''() { [native code] }'')"

definition standardObjectPrototype :: "string \<rightharpoonup> jsval" where
  "standardObjectPrototype =
     [''constructor'' \<mapsto> nativeFunction ''Object'',
      ''__defineGetter__'' \<mapsto> nativeFunction ''__defineGetter__'',
      ''__defineSetter__'' \<mapsto> nativeFunction ''__defineSetter__'',
      ''hasOwnProperty'' \<mapsto> nativeFunction ''hasOwnProperty'',
      ''__lookupGetter__'' \<mapsto> nativeFunction ''__lookupGetter__'',
      ''__lookupSetter__'' \<mapsto> nativeFunction ''__lookupSetter__'',
      ''isPrototypeOf'' \<mapsto> nativeFunction ''isPrototypeOf'',
      ''propertyIsEnumerable'' \<mapsto> nativeFunction ''propertyIsEnumerable'',
      ''toString'' \<mapsto> nativeFunction ''toString'',
      ''valueOf'' \<mapsto> nativeFunction ''valueOf'',
      ''toLocaleString'' \<mapsto> nativeFunction ''toLocaleString'']"

text \<open>A host with no environment source at all and the standard \<open>Object.prototype\<close>.\<close>

definition noHost :: host where
  "noHost = \<lparr> process = None, import_meta = None, global_importMeta = False, Deno = None,
              Bun = False, window = None, global_ENV = Inr None,
              objectPrototype = standardObjectPrototype, proto_accessor = True \<rparr>"

definition noRuntime :: RuntimeDetection where
  "noRuntime = \<lparr> isNode = False, isBrowser = False, isVite = False, isWebpack = False,
                 isDeno = False, isBun = False \<rparr>"

definition emptyLoader :: ConfigLoader where
  "emptyLoader = \<lparr> runtimeDetection = noRuntime, envCache = Map.empty \<rparr>"

text \<open>A loader whose Snapshot holds \<open>VITE_API_URL=foo\<close> only.\<close>

definition viteLoader :: ConfigLoader where
  "viteLoader = \<lparr> runtimeDetection = noRuntime,
                  envCache = [''VITE_API_URL'' \<mapsto> Str ''foo''] \<rparr>"

text \<open>A loader whose Snapshot holds \<open>K=x\<close>, and a transform that throws \<open>Error('boom')\<close>.\<close>

definition kLoader :: ConfigLoader where
  "kLoader = \<lparr> runtimeDetection = noRuntime, envCache = [''K'' \<mapsto> Str ''x''] \<rparr>"

definition throwingTransform :: "jsval \<Rightarrow> jserror + string" where
  "throwingTransform value = Inl (JSError ''boom'' None)"

text \<open>
  A host whose \<open>globalThis.__ENV__\<close> is the object that \<open>JSON.parse\<close> gives for
  \<open>{"__proto__": "x", "A": "1"}\<close>, with \<open>__proto__\<close> as an own property.
\<close>

definition protoKeyHost :: host where
  "protoKeyHost =
     noHost \<lparr> global_ENV := Inr (Some [(''__proto__'', Inr (Str ''x'')), (''A'', Inr (Str ''1''))]) \<rparr>"






text \<open>Loaders whose Snapshot holds \<open>PORT\<close> with the empty string, and with \<open>abc\<close>.\<close>

definition emptyPortLoader :: ConfigLoader where
  "emptyPortLoader = \<lparr> runtimeDetection = noRuntime, envCache = [''PORT'' \<mapsto> Str []] \<rparr>"

definition abcPortLoader :: ConfigLoader where
  "abcPortLoader = \<lparr> runtimeDetection = noRuntime, envCache = [''PORT'' \<mapsto> Str ''abc''] \<rparr>"

section \<open>Relations between loaders\<close>


text \<open>Loading reads and writes the cache only: two loaders with the same cache fare alike.\<close>

definition sameOutcome ::
  "(jserror + unit) \<times> ConfigLoader \<Rightarrow> (jserror + unit) \<times> ConfigLoader \<Rightarrow> bool" where
  "sameOutcome r r' = (fst r = fst r' \<and> envCache (snd r) = envCache (snd r'))"

section \<open>Prefix resolution in get\<close>

text \<open>A lookup that comes back with \<open>undefined\<close> leaves the loader as it was.\<close>

lemma tryGetValue_miss:
  "fst (tryGetValue h L key) = Inr Undefined \<Longrightarrow> tryGetValue h L key = (Inr Undefined, L)"
  by (auto simp add: tryGetValue_def tryProcessEnv_def tryImportMetaEnv_def tryDenoEnv_def
      split: if_splits option.splits sum.splits)

lemma protoGet_noHost:
  "protoGet noHost key =
     (if key = ''__proto__'' then Some (Builtin ''[object Object]'')
      else standardObjectPrototype key)"
  by (simp add: protoGet_def noHost_def)

lemma tryGetValue_noHost:
  "tryGetValue noHost L key =
     (if cacheHas noHost L key then (Inr (cacheGet noHost L key), L) else (Inr Undefined, L))"
  by (simp add: tryGetValue_def tryProcessEnv_def tryImportMetaEnv_def tryDenoEnv_def noHost_def)

lemma tryCommonPrefixes_firstFound:
  "tryCommonPrefixes h L key ps = firstFound h L (map (\<lambda>q. q @ key) ps)"
proof (induction ps)
  case Nil
  show ?case by simp
next
  case (Cons q ps)
  show ?case
  proof (cases "fst (tryGetValue h L (q @ key)) = Inr Undefined")
    case True
    then have "tryGetValue h L (q @ key) = (Inr Undefined, L)"
      by (rule tryGetValue_miss)
    with Cons show ?thesis by simp
  next
    case False
    then show ?thesis
      by (cases "tryGetValue h L (q @ key)") (auto split: sum.splits)
  qed
qed

lemma get_no_prefix:
  "get h L key \<lparr>prefix = None\<rparr> = firstFound h L (key # map (\<lambda>q. q @ key) commonPrefixes)"
proof (cases "fst (tryGetValue h L key) = Inr Undefined")
  case True
  then have "tryGetValue h L key = (Inr Undefined, L)"
    by (rule tryGetValue_miss)
  then show ?thesis by (simp add: get_def tryCommonPrefixes_firstFound)
next
  case False
  then show ?thesis
    by (cases "tryGetValue h L key") (auto simp: get_def split: sum.splits)
qed

text \<open>
  C1, as amended. With no prefix option, \<open>get\<close> returns the first hit among the direct
  lookups of the key itself and of the key under \<open>VITE_\<close>, \<open>REACT_APP_\<close>, \<open>VUE_APP_\<close>,
  \<open>NEXT_PUBLIC_\<close>, in that order. With a non-empty prefix, \<open>get\<close> is the direct lookup
  of prefix + key and nothing else.
\<close>

theorem get_resolution_order:
  assumes "p \<noteq> []"
  shows "get h L key \<lparr>prefix = Some p\<rparr> = tryGetValue h L (p @ key) \<and>
         get h L key \<lparr>prefix = None\<rparr> =
           firstFound h L [key, ''VITE_'' @ key, ''REACT_APP_'' @ key, ''VUE_APP_'' @ key,
                           ''NEXT_PUBLIC_'' @ key]"
proof
  show "get h L key \<lparr>prefix = Some p\<rparr> = tryGetValue h L (p @ key)"
    using assms by (cases "tryGetValue h L (p @ key)") (auto simp: get_def split: sum.splits)
  show "get h L key \<lparr>prefix = None\<rparr> =
           firstFound h L [key, ''VITE_'' @ key, ''REACT_APP_'' @ key, ''VUE_APP_'' @ key,
                           ''NEXT_PUBLIC_'' @ key]"
    by (simp only: get_no_prefix commonPrefixes_def list.map)
qed

lemma cache_viteLoader:
  "cacheHas noHost viteLoader ''VITE_API_URL''"
  "cacheGet noHost viteLoader ''VITE_API_URL'' = Str ''foo''"
  "\<not> cacheHas noHost viteLoader ''API_URL''"
  "\<not> cacheHas noHost viteLoader ''OTHER_API_URL''"
  by (simp_all add: cacheHas_def cacheGet_def viteLoader_def protoGet_noHost
      standardObjectPrototype_def)

text \<open>
  With \<open>VITE_API_URL=foo\<close> only: \<open>get('API_URL')\<close> is \<open>foo\<close>, and
  \<open>get('API_URL', {prefix: 'OTHER_'})\<close> is \<open>undefined\<close>.
\<close>

theorem get_resolution_order_witness:
  "''OTHER_'' \<noteq> [] \<and>
   fst (get noHost viteLoader ''API_URL'' \<lparr>prefix = Some ''OTHER_''\<rparr>) = Inr Undefined \<and>
   fst (get noHost viteLoader ''API_URL'' \<lparr>prefix = None\<rparr>) = Inr (Str ''foo'')"
proof -
  have h: "''OTHER_'' \<noteq> []" by simp
  show ?thesis
    using h get_resolution_order [OF h, of noHost viteLoader "''API_URL''"]
    by (simp add: tryGetValue_noHost cache_viteLoader)
qed

text \<open>
  C1 as stated fails for the prefix \<open>''\<close>: the caller supplies it, the lookup of
  prefix + key finds nothing, and \<open>get\<close> still returns the value found under \<open>VITE_\<close>.
\<close>

theorem get_empty_prefix_counterexample:
  "fst (get noHost viteLoader ''API_URL'' \<lparr>prefix = Some []\<rparr>) = Inr (Str ''foo'') \<and>
   fst (tryGetValue noHost viteLoader ([] @ ''API_URL'')) = Inr Undefined"
  by (simp add: get_def tryGetValue_noHost cache_viteLoader commonPrefixes_def)

text \<open>
  C9. \<open>get\<close> with the option \<open>{prefix: ''}\<close> is \<open>get\<close> with no prefix option: the
  effective key is the key itself, and on a miss the four common prefixes are tried.
\<close>

theorem get_empty_prefix_is_no_prefix:
  "get h L key \<lparr>prefix = Some []\<rparr> = get h L key \<lparr>prefix = None\<rparr> \<and>
   get h L key \<lparr>prefix = Some []\<rparr> =
     firstFound h L [key, ''VITE_'' @ key, ''REACT_APP_'' @ key, ''VUE_APP_'' @ key,
                     ''NEXT_PUBLIC_'' @ key]"
proof -
  have "get h L key \<lparr>prefix = Some []\<rparr> = get h L key \<lparr>prefix = None\<rparr>"
    by (simp add: get_def)
  then show ?thesis
    by (simp only: get_no_prefix commonPrefixes_def list.map simp_thms)
qed

section \<open>getTransformed\<close>

lemma cache_kLoader:
  "cacheHas noHost kLoader ''K''" "cacheGet noHost kLoader ''K'' = Str ''x''"
  by (simp_all add: cacheHas_def cacheGet_def kLoader_def)

text \<open>
  C3. With \<open>K=x\<close> in the Snapshot and a transform that throws \<open>Error('boom')\<close>,
  \<open>getTransformed('K', transform)\<close> throws an error whose message names the key \<open>K\<close>
  and which has no cause: the caught error is passed as the options argument of
  \<open>new Error\<close>, and it has no \<open>cause\<close> property of its own.
\<close>

theorem getTransformed_drops_cause:
  "throwingTransform (Str ''x'') = Inl (JSError ''boom'' None) \<and>
   fst (getTransformed noHost kLoader ''K'' throwingTransform \<lparr>prefix = None\<rparr>) =
     Inl (JSError (''Failed to transform config value for key '' @ [CHR 0x22] @ ''K'' @
            [CHR 0x22] @ '':'') None)"
  by (simp add: getTransformed_def get_def tryGetValue_noHost cache_kLoader
      throwingTransform_def newErrorWithOptions_def transformFailedMessage_def dquote_def)

section \<open>Keys that the cache inherits\<close>

lemma sourceObjects_noHost: "sourceObjects noHost = [None, None, None, None, None]"
  by (simp add: sourceObjects_def processObject_def importMetaObject_def denoObject_def
      browserObject_def globalObject_def noHost_def)

lemma cache_constructor:
  "cacheHas noHost emptyLoader ''constructor''"
  "cacheGet noHost emptyLoader ''constructor'' = Builtin ''function Object() { [native code] }''"
  by (simp_all add: cacheHas_def cacheGet_def emptyLoader_def protoGet_noHost
      standardObjectPrototype_def nativeFunction_def)

text \<open>
  C2. With an empty Snapshot and no source at all, every step of the direct lookup of
  \<open>constructor\<close> has nothing to find, and the lookup still does not return
  \<open>undefined\<close>: \<open>'constructor' in this.#envCache\<close> holds through
  \<open>Object.prototype\<close>, and the lookup returns the inherited function.
\<close>

theorem tryGetValue_inherited_key:
  "envCache emptyLoader ''constructor'' = None \<and>
   sourceObjects noHost = [None, None, None, None, None] \<and>
   tryGetValue noHost emptyLoader ''constructor'' =
     (Inr (Builtin ''function Object() { [native code] }''), emptyLoader)"
proof -
  have "tryGetValue noHost emptyLoader ''constructor'' =
     (Inr (Builtin ''function Object() { [native code] }''), emptyLoader)"
    by (simp add: tryGetValue_noHost cache_constructor)
  moreover have "envCache emptyLoader ''constructor'' = None"
    by (simp add: emptyLoader_def)
  ultimately show ?thesis by (simp add: sourceObjects_noHost)
qed

text \<open>
  C6. With an empty Snapshot and no source at all, the key \<open>constructor\<close> is absent
  from every source and fallback, and \<open>getRequired('constructor')\<close> does not throw:
  it returns the function that the cache inherits under that name.
\<close>

theorem getRequired_inherited_key:
  "envCache emptyLoader ''constructor'' = None \<and>
   sourceObjects noHost = [None, None, None, None, None] \<and>
   fst (getRequired noHost emptyLoader ''constructor'' \<lparr>prefix = None\<rparr>) =
     Inr (Builtin ''function Object() { [native code] }'')"
proof -
  have "fst (getRequired noHost emptyLoader ''constructor'' \<lparr>prefix = None\<rparr>) =
     Inr (Builtin ''function Object() { [native code] }'')"
    by (simp add: getRequired_def get_def tryGetValue_noHost cache_constructor)
  moreover have "envCache emptyLoader ''constructor'' = None"
    by (simp add: emptyLoader_def)
  ultimately show ?thesis by (simp add: sourceObjects_noHost)
qed

text \<open>
  C7. \<open>set('__proto__', 'v')\<close> stores nothing, the assignment running the inherited
  setter, and \<open>get('__proto__')\<close> then returns \<open>Object.prototype\<close>, not \<open>v\<close>.
\<close>

theorem set_proto_key_not_stored:
  "set_value noHost emptyLoader ''__proto__'' ''v'' = emptyLoader \<and>
   fst (get noHost (set_value noHost emptyLoader ''__proto__'' ''v'') ''__proto__''
          \<lparr>prefix = None\<rparr>) = Inr (Builtin ''[object Object]'')"
proof -
  have s: "set_value noHost emptyLoader ''__proto__'' ''v'' = emptyLoader"
    by (simp add: set_value_def cacheSet_def emptyLoader_def noHost_def)
  have "cacheHas noHost emptyLoader ''__proto__''"
    "cacheGet noHost emptyLoader ''__proto__'' = Builtin ''[object Object]''"
    by (simp_all add: cacheHas_def cacheGet_def emptyLoader_def protoGet_noHost)
  then have "fst (get noHost emptyLoader ''__proto__'' \<lparr>prefix = None\<rparr>) =
     Inr (Builtin ''[object Object]'')"
    by (simp add: get_def tryGetValue_noHost)
  with s show ?thesis by simp
qed

text \<open>
  C4. With \<open>globalThis.__ENV__\<close> holding the own properties \<open>__proto__\<close> and \<open>A\<close>
  and no other source, the Snapshot after construction holds \<open>A\<close> only:
  \<open>Object.assign\<close> assigns \<open>__proto__\<close> through the inherited setter, and the
  value of the source under that key is not merged.
\<close>

theorem merge_drops_proto_key:
  "global_ENV protoKeyHost = Inr (Some [(''__proto__'', Inr (Str ''x'')), (''A'', Inr (Str ''1''))]) \<and>
   newConfigLoader protoKeyHost =
     Inr \<lparr> runtimeDetection = noRuntime, envCache = [''A'' \<mapsto> Str ''1''] \<rparr>"
  by (simp add: newConfigLoader_def detectRuntime_def loadEnvironmentVariables_def andThen_def
      loadProcessEnv_def loadImportMetaEnv_def loadDenoEnv_def loadWindowEnv_def loadGlobalEnv_def
      assign_def ownKeys_def getProperty_def cacheSet_def protoKeyHost_def noHost_def noRuntime_def)

section \<open>The Source Merger\<close>




























lemma sameOutcome_refl_cache:
  "envCache L = envCache L' \<Longrightarrow> sameOutcome (x, L) (x, L')"
  by (simp add: sameOutcome_def)













section \<open>refresh\<close>















section \<open>getNumber\<close>

text \<open>A string of white space only is trimmed to the empty string, which is \<open>+0\<close>.\<close>

lemma dropWhile_all: "list_all P s \<Longrightarrow> dropWhile P s = []"
  by (induction s) simp_all

lemma trimString_white: "list_all isStrWhiteSpaceChar s \<Longrightarrow> trimString s = []"
  by (simp only: trimString_def dropWhile_all rev.simps dropWhile.simps)

lemma StringToNumber_white:
  "list_all isStrWhiteSpaceChar s \<Longrightarrow> StringToNumber s = Rounded False 0"
  by (simp add: StringToNumber_def trimString_white)

lemma getNumber_found:
  "fst (get h L key options) = Inr (Str s) \<Longrightarrow>
   fst (getNumber h L key options) =
     (if StringToNumber s = NaN
      then Inl (JSError
             (transformFailedMessage ((case prefix options of None \<Rightarrow> [] | Some p \<Rightarrow> p) @ key))
             None)
      else Inr (Some (StringToNumber s)))"
  by (cases "get h L key options")
     (auto simp add: getNumber_def getTransformed_def numberTransform_def Let_def
        newErrorWithOptions_def newError_def)

text \<open>
  C10, as amended. When the raw value of the key is the empty string, or white space
  only, \<open>getNumber\<close> returns 0. When the raw value is a string whose numeric coercion
  is not \<open>NaN\<close>, \<open>getNumber\<close> returns that number; when it is \<open>NaN\<close>, and only
  then, \<open>getNumber\<close> throws, and what it throws is the error of \<open>getTransformed\<close>
  that names the resolved key.
\<close>

theorem getNumber_empty_string_and_NaN:
  assumes "fst (get h L key options) = Inr (Str s)"
  shows "(s = [] \<longrightarrow> fst (getNumber h L key options) = Inr (Some (Rounded False 0))) \<and>
         (list_all isStrWhiteSpaceChar s \<longrightarrow>
            fst (getNumber h L key options) = Inr (Some (Rounded False 0))) \<and>
         (StringToNumber s \<noteq> NaN \<longrightarrow>
            fst (getNumber h L key options) = Inr (Some (StringToNumber s))) \<and>
         (StringToNumber s = NaN \<longrightarrow>
            (\<exists>c. fst (getNumber h L key options) =
               Inl (JSError
                 (transformFailedMessage
                    ((case prefix options of None \<Rightarrow> [] | Some p \<Rightarrow> p) @ key)) c)))"
proof -
  have "StringToNumber [] = Rounded False 0"
    by (simp add: StringToNumber_white)
  with assms show ?thesis
    by (auto simp add: getNumber_found StringToNumber_white)
qed

text \<open>
  With \<open>PORT\<close> set to the empty string \<open>getNumber('PORT')\<close> is 0; with \<open>PORT=abc\<close>
  it throws the error that names \<open>PORT\<close>.
\<close>

lemma StringToNumber_abc: "StringToNumber ''abc'' = NaN"
  by (simp add: StringToNumber_def trimString_def isStrWhiteSpaceChar_def
      nonDecimalIntegerLiteral_def strDecimalLiteral_def unsignedValue_def
      strUnsignedDecimalLiteral_def isDecimalDigit_def)

lemma get_PORT:
  "fst (get noHost emptyPortLoader ''PORT'' \<lparr>prefix = None\<rparr>) = Inr (Str [])"
  "fst (get noHost abcPortLoader ''PORT'' \<lparr>prefix = None\<rparr>) = Inr (Str ''abc'')"
  by (simp_all add: get_def tryGetValue_noHost cacheHas_def cacheGet_def emptyPortLoader_def
      abcPortLoader_def)

theorem getNumber_empty_string_and_NaN_witness:
  "fst (get noHost emptyPortLoader ''PORT'' \<lparr>prefix = None\<rparr>) = Inr (Str []) \<and>
   fst (getNumber noHost emptyPortLoader ''PORT'' \<lparr>prefix = None\<rparr>) =
     Inr (Some (Rounded False 0)) \<and>
   fst (get noHost abcPortLoader ''PORT'' \<lparr>prefix = None\<rparr>) = Inr (Str ''abc'') \<and>
   StringToNumber ''abc'' = NaN \<and>
   (\<exists>c. fst (getNumber noHost abcPortLoader ''PORT'' \<lparr>prefix = None\<rparr>) =
      Inl (JSError (transformFailedMessage ''PORT'') c))"
  using getNumber_empty_string_and_NaN [OF get_PORT(1)]
    getNumber_empty_string_and_NaN [OF get_PORT(2)]
  by (simp add: get_PORT StringToNumber_abc)

text \<open>
  C10 as stated fails for the raw value \<open>abc\<close>: the transform throws the error
  "not a valid number", and what \<open>getNumber\<close> throws is another error, which names
  the key and carries neither that message nor that error as its cause.
\<close>

theorem getNumber_failure_counterexample:
  "StringToNumber ''abc'' = NaN \<and>
   numberTransform (Str ''abc'') =
     Inl (JSError (''Value '' @ [CHR 0x22] @ ''abc'' @ [CHR 0x22] @ '' is not a valid number'')
            None) \<and>
   fst (getNumber noHost abcPortLoader ''PORT'' \<lparr>prefix = None\<rparr>) =
     Inl (JSError (''Failed to transform config value for key '' @ [CHR 0x22] @ ''PORT'' @
            [CHR 0x22] @ '':'') None)"
  by (simp add: getNumber_found [OF get_PORT(2)] StringToNumber_abc numberTransform_def
      newError_def notValidNumberMessage_def transformFailedMessage_def dquote_def)

end
